theory Spec2Isabelle
  imports Main "HOL-Library.Multiset"
begin

section \<open>Python values and strings\<close>

text \<open>
  The values that travel through \<^verbatim>\<open>database.py\<close> are what \<^verbatim>\<open>json.loads\<close> and the
  driver hand over: \<^verbatim>\<open>None\<close>, booleans, integers, strings, lists, tuples and dicts with
  string keys. A dict is an association list in insertion order with distinct keys.
  A Python \<^verbatim>\<open>str\<close> is a \<open>string\<close> whose characters are the code points
  U+0000 .. U+00FF. Floating point numbers are left out.
\<close>

datatype pyval =
    PNone
  | PBool bool
  | PInt int
  | PStr string
  | PList "pyval list"
  | PTuple "pyval list"
  | PDict "(string \<times> pyval) list"

type_synonym pydict = "(string \<times> pyval) list"


text \<open>\<^verbatim>\<open>d[k] = v\<close>: an existing key keeps its position, a new key goes to the end.\<close>

fun dict_set :: "('k \<times> 'v) list \<Rightarrow> 'k \<Rightarrow> 'v \<Rightarrow> ('k \<times> 'v) list" where
  "dict_set [] k v = [(k, v)]"
| "dict_set ((k', v') # d) k v = (if k' = k then (k, v) # d else (k', v') # dict_set d k v)"

text \<open>\<^verbatim>\<open>d[k]\<close>: the value, or \<open>None\<close> for the KeyError.\<close>

fun dict_get :: "('k \<times> 'v) list \<Rightarrow> 'k \<Rightarrow> 'v option" where
  "dict_get [] k = None"
| "dict_get ((k', v') # d) k = (if k' = k then Some v' else dict_get d k)"

text \<open>\<^verbatim>\<open>sep.join(xs)\<close>.\<close>

fun join :: "string \<Rightarrow> string list \<Rightarrow> string" where
  "join sep [] = []"
| "join sep [x] = x"
| "join sep (x # y # ys) = x @ sep @ join sep (y # ys)"

text \<open>The f-string fragment \<^verbatim>\<open>"{name}"\<close>: the name between two double quotes.\<close>

definition apostrophe :: string where
  "apostrophe = [CHR 0x27]"

definition newline :: string where
  "newline = [CHR 0x0A]"

definition quoted :: "string \<Rightarrow> string" where
  "quoted name = [CHR 0x22] @ name @ [CHR 0x22]"

text \<open>
  \<^verbatim>\<open>str.isspace\<close> on the code points below 256: TAB, LF, VT, FF, CR, the four
  separators FS, GS, RS, US, the space, NEL and the no-break space.
\<close>

definition py_isspace :: "char \<Rightarrow> bool" where
  "py_isspace c = (of_char c \<in> {9, 10, 11, 12, 13, 28, 29, 30, 31, 32, 133, 160 :: nat})"

definition py_strip :: "string \<Rightarrow> string" where
  "py_strip s = rev (dropWhile py_isspace (rev (dropWhile py_isspace s)))"

text \<open>The guard \<^verbatim>\<open>not condition or condition.strip() == ""\<close>.\<close>

definition empty_condition :: "string \<Rightarrow> bool" where
  "empty_condition condition = (condition = [] \<or> py_strip condition = [])"

text \<open>\<^verbatim>\<open>str(n)\<close> for an integer.\<close>

definition digit_char :: "nat \<Rightarrow> char" where
  "digit_char d = char_of (48 + d)"

fun str_nat :: "nat \<Rightarrow> string" where
  "str_nat n = (if n < 10 then [digit_char n] else str_nat (n div 10) @ [digit_char (n mod 10)])"

declare str_nat.simps [simp del]

definition str_int :: "int \<Rightarrow> string" where
  "str_int i = (if i < 0 then CHR ''-'' # str_nat (nat (- i)) else str_nat (nat i))"



section \<open>The database and the operating system as seen by DBManager\<close>

text \<open>
  Every call that leaves the process is logged as an event, and the answer of the
  outside world to a call is a function of the events logged so far: the world may
  answer the same statement differently the second time. An exception is the text
  \<^verbatim>\<open>str(e)\<close> that the handlers put into their results.
\<close>

type_synonym row = "(string \<times> pyval) list"

datatype outcome =
    Raised string
  | Done "row list option" int

record column_info =
  column_name :: string
  data_type :: string
  is_nullable :: string
  column_default :: "string option"

record edge =
  referencing_table :: string
  referencing_column :: string
  referenced_table :: string
  referenced_column :: string

datatype cursor_factory = RealDictCursor | DictCursor | TupleCursor

datatype proc_result =
    ProcRaised string
  | Completed int string string

text \<open>
  One entry of the \<^verbatim>\<open>results\<close> list of pack\_tables is either the dict of a packed table
  or an error text; \<^verbatim>\<open>pack_info\<close> is the content of the manifest.
\<close>

record packed_table =
  entry_table :: string
  entry_backup_file :: string
  entry_excel_file :: string
  entry_json_file :: string
  entry_rows :: nat

datatype pack_entry =
    PackedOk packed_table
  | PackError string

record pack_info =
  info_time :: string
  info_packed :: nat
  info_total :: nat
  info_results :: "pack_entry list"

datatype event =
    Connect cursor_factory bool
  | Execute string "pyval list" outcome
  | Commit "string option"
  | Rollback
  | Close
  | TableInfo string "column_info list option"
  | TablePk string "string list option"
  | RelatedTables string "edge list option"
  | TablePresent string bool
  | TableRows string "row list option"
  | PgTables "string + string list"
  | RunSql string pyval "row list option"
  | FileExists string bool
  | MakeDir string "string option"
  | WriteXlsx string "string option"
  | WriteJson string "string option"
  | WriteManifest string pack_info "string option"
  | PgDump string string proc_result
  | PgRestore string proc_result

type_synonym trace = "event list"

text \<open>
  The world answers: connection attempts, statements, commits, the catalog queries of
  SchemaCatalog, \<^verbatim>\<open>get_table_rows\<close>, the table list of \<^verbatim>\<open>pg_tables\<close>, a whole
  \<^verbatim>\<open>run_sql\<close> call, the file system, the two external programs and the clock. The last
  two fields are the library functions \<^verbatim>\<open>str\<close> and \<^verbatim>\<open>json.loads\<close> (the text
  of the JSONDecodeError on the left).
\<close>

record world =
  w_connect :: "trace \<Rightarrow> bool"
  w_execute :: "trace \<Rightarrow> string \<Rightarrow> pyval list \<Rightarrow> outcome"
  w_commit :: "trace \<Rightarrow> string option"
  w_table_info :: "trace \<Rightarrow> string \<Rightarrow> column_info list option"
  w_table_pk :: "trace \<Rightarrow> string \<Rightarrow> string list option"
  w_related :: "trace \<Rightarrow> string \<Rightarrow> edge list option"
  w_present :: "trace \<Rightarrow> string \<Rightarrow> bool"
  w_rows :: "trace \<Rightarrow> string \<Rightarrow> row list option"
  w_pg_tables :: "trace \<Rightarrow> string + string list"
  w_run_sql :: "trace \<Rightarrow> string \<Rightarrow> pyval \<Rightarrow> row list option"
  w_exists :: "trace \<Rightarrow> string \<Rightarrow> bool"
  w_mkdir :: "trace \<Rightarrow> string \<Rightarrow> string option"
  w_write_xlsx :: "trace \<Rightarrow> string \<Rightarrow> string option"
  w_write_json :: "trace \<Rightarrow> string \<Rightarrow> string option"
  w_write_manifest :: "trace \<Rightarrow> string \<Rightarrow> string option"
  w_pg_dump :: "trace \<Rightarrow> string \<Rightarrow> string \<Rightarrow> proc_result"
  w_pg_restore :: "trace \<Rightarrow> string \<Rightarrow> proc_result"
  w_now :: "trace \<Rightarrow> string \<Rightarrow> string"
  w_str :: "pyval \<Rightarrow> string"
  w_json_loads :: "string \<Rightarrow> string + pyval"

text \<open>
  \<^verbatim>\<open>get_db_connection\<close>: the connection, or None after a caught connection error.
  The cursor factory is RealDictCursor unless \<^verbatim>\<open>dict_mode=False\<close>.
\<close>

definition get_db_connection :: "world \<Rightarrow> bool \<Rightarrow> trace \<Rightarrow> (cursor_factory option \<times> trace)" where
  "get_db_connection w dict_mode tr =
     (let factory = (if dict_mode then RealDictCursor else DictCursor);
          ok = w_connect w tr
      in ((if ok then Some factory else None), tr @ [Connect factory ok]))"

definition cursor_execute :: "world \<Rightarrow> string \<Rightarrow> pyval list \<Rightarrow> trace \<Rightarrow> (outcome \<times> trace)" where
  "cursor_execute w sql params tr =
     (let oc = w_execute w tr sql params in (oc, tr @ [Execute sql params oc]))"

definition conn_commit :: "world \<Rightarrow> trace \<Rightarrow> (string option \<times> trace)" where
  "conn_commit w tr = (let r = w_commit w tr in (r, tr @ [Commit r]))"

text \<open>
  \<^verbatim>\<open>get_table_info\<close>, \<^verbatim>\<open>get_table_pk\<close> and \<^verbatim>\<open>get_related_tables\<close> go through
  \<^verbatim>\<open>run_sql\<close> on a connection of their own: the rows, or None when the connection or the
  catalog query failed. \<^verbatim>\<open>get_table_pk\<close> keeps the first row only.
\<close>

definition get_table_info :: "world \<Rightarrow> string \<Rightarrow> trace \<Rightarrow> (column_info list option \<times> trace)" where
  "get_table_info w table_name tr =
     (let r = w_table_info w tr table_name in (r, tr @ [TableInfo table_name r]))"

definition get_table_pk :: "world \<Rightarrow> string \<Rightarrow> trace \<Rightarrow> (string option \<times> trace)" where
  "get_table_pk w table_name tr =
     (let r = w_table_pk w tr table_name
      in ((case r of Some (c # cs) \<Rightarrow> Some c | _ \<Rightarrow> None), tr @ [TablePk table_name r]))"

definition get_related_tables :: "world \<Rightarrow> string \<Rightarrow> trace \<Rightarrow> (edge list option \<times> trace)" where
  "get_related_tables w table_name tr =
     (let r = w_related w tr table_name in (r, tr @ [RelatedTables table_name r]))"

section \<open>add\_row and modify\_row\<close>

text \<open>
  The loop of both builders over \<^verbatim>\<open>data.items()\<close>: a value that is neither None nor
  the empty string is kept, an empty one becomes None when its key is in
  \<^verbatim>\<open>nullable_columns\<close>, any other key is skipped.
\<close>

definition keep_value :: "string list \<Rightarrow> pydict \<Rightarrow> (string \<times> pyval) \<Rightarrow> pydict" where
  "keep_value nullable_columns filtered_data kv =
     (case kv of (key, value) \<Rightarrow>
        if value \<noteq> PNone \<and> value \<noteq> PStr [] then dict_set filtered_data key value
        else if key \<in> set nullable_columns then dict_set filtered_data key PNone
        else filtered_data)"

definition filter_data :: "string list \<Rightarrow> pydict \<Rightarrow> pydict" where
  "filter_data nullable_columns data = foldl (keep_value nullable_columns) [] data"

text \<open>add\_row takes the columns whose \<^verbatim>\<open>is_nullable\<close> is 'YES'.\<close>

definition add_row_nullable :: "column_info list \<Rightarrow> string list" where
  "add_row_nullable columns_info =
     map column_name (filter (\<lambda>col. is_nullable col = ''YES'') columns_info)"

text \<open>modify\_row takes every column name, or no name when there is no column information.\<close>

definition modify_row_nullable :: "column_info list option \<Rightarrow> string list" where
  "modify_row_nullable columns_info =
     (case columns_info of
        None \<Rightarrow> []
      | Some cols \<Rightarrow> (if cols = [] then [] else map column_name cols))"

text \<open>The statement text of add\_row, built from \<^verbatim>\<open>filtered_data\<close> and the primary key.\<close>

definition insert_sql :: "string \<Rightarrow> pydict \<Rightarrow> string option \<Rightarrow> string" where
  "insert_sql table_name filtered_data pk =
     (let columns = join '', '' (map (\<lambda>col. quoted col) (map fst filtered_data));
          placeholders = join '', '' (replicate (length filtered_data) ''%s'')
      in case pk of
           Some p \<Rightarrow> ''INSERT INTO '' @ quoted table_name @ '' ('' @ columns @ '') VALUES (''
                      @ placeholders @ '') RETURNING '' @ quoted p
         | None \<Rightarrow> ''INSERT INTO '' @ quoted table_name @ '' ('' @ columns @ '') VALUES (''
                      @ placeholders @ '')'')"

text \<open>The statement text and the bound values of modify\_row, built from \<^verbatim>\<open>clean_data\<close>.\<close>

definition update_sql :: "string \<Rightarrow> pydict \<Rightarrow> string \<Rightarrow> string" where
  "update_sql table_name clean_data condition =
     (let set_parts = map (\<lambda>(key, value). quoted key @ '' = %s'') clean_data;
          set_clause = join '', '' set_parts
      in ''UPDATE '' @ quoted table_name @ '' SET '' @ set_clause @ '' WHERE '' @ condition)"

definition update_values :: "pydict \<Rightarrow> pyval list" where
  "update_values clean_data = map (\<lambda>(key, value). value) clean_data"

text \<open>
  \<^verbatim>\<open>cursor.fetchone()\<close> after an execute: the first row, None when the result set is
  empty, an exception when the statement returned no result set.
\<close>

definition fetchone :: "row list option \<Rightarrow> string + row option" where
  "fetchone rs =
     (case rs of
        None \<Rightarrow> Inl ''no results to fetch''
      | Some [] \<Rightarrow> Inr None
      | Some (r # _) \<Rightarrow> Inr (Some r))"

text \<open>
  \<^verbatim>\<open>row[key]\<close> with a column name, on a RealDictCursor or DictCursor row. The text of a
  KeyError is the \<^verbatim>\<open>repr\<close> of the key.
\<close>

definition row_by_name :: "row \<Rightarrow> string \<Rightarrow> string + pyval" where
  "row_by_name r key =
     (case dict_get r key of None \<Rightarrow> Inl (apostrophe @ key @ apostrophe) | Some v \<Rightarrow> Inr v)"

text \<open>
  add\_row returns the inserted id or None. Every exception inside it is caught and
  turned into None.
\<close>

definition returned_id :: "string option \<Rightarrow> row list option \<Rightarrow> string + pyval" where
  "returned_id pk rs =
     (case pk of
        None \<Rightarrow> Inr PNone
      | Some p \<Rightarrow>
          (case fetchone rs of
             Inl e \<Rightarrow> Inl e
           | Inr None \<Rightarrow> Inr PNone
           | Inr (Some r) \<Rightarrow> row_by_name r p))"

definition add_row_insert :: "world \<Rightarrow> string \<Rightarrow> pydict \<Rightarrow> trace \<Rightarrow> (pyval \<times> trace)" where
  "add_row_insert w table_name filtered_data tr1 =
     (case get_table_pk w table_name tr1 of (pk, tr2) \<Rightarrow>
       (let sql = insert_sql table_name filtered_data pk in
        (case get_db_connection w True tr2 of (conn, tr3) \<Rightarrow>
          (if conn = None then (PNone, tr3)
           else
             (case cursor_execute w sql (map snd filtered_data) tr3 of (oc, tr4) \<Rightarrow>
               (case oc of
                  Raised e \<Rightarrow> (PNone, tr4)
                | Done rs n \<Rightarrow>
                    (case returned_id pk rs of
                       Inl e \<Rightarrow> (PNone, tr4)
                     | Inr inserted_id \<Rightarrow>
                         (case conn_commit w tr4 of (c, tr5) \<Rightarrow>
                           (case c of
                              Some e \<Rightarrow> (PNone, tr5)
                            | None \<Rightarrow> (inserted_id, tr5 @ [Close]))))))))))"

definition add_row :: "world \<Rightarrow> string \<Rightarrow> pydict \<Rightarrow> trace \<Rightarrow> (pyval \<times> trace)" where
  "add_row w table_name data tr =
     (case get_table_info w table_name tr of (columns_info, tr1) \<Rightarrow>
       (case columns_info of
          None \<Rightarrow> (PNone, tr1)
        | Some cols \<Rightarrow>
            (if cols = [] then (PNone, tr1)
             else
               (let filtered_data = filter_data (add_row_nullable cols) data in
                (if filtered_data = [] then (PNone, tr1)
                 else add_row_insert w table_name filtered_data tr1)))))"

text \<open>The result dicts of modify\_row, remove\_row and safe\_remove.\<close>

record relation =
  relation_table :: string
  relation_column :: string
  relation_count :: pyval

datatype op_result =
    Failed string
  | Changed int string
  | HasRelations string "relation list"

text \<open>The value under the key \<^verbatim>\<open>ok\<close>.\<close>

fun ok :: "op_result \<Rightarrow> bool" where
  "ok (Failed m) = False"
| "ok (Changed n m) = True"
| "ok (HasRelations m rs) = False"

definition modify_row_update :: "world \<Rightarrow> string \<Rightarrow> pydict \<Rightarrow> string \<Rightarrow> trace \<Rightarrow> (op_result \<times> trace)" where
  "modify_row_update w table_name clean_data condition tr1 =
     (let sql = update_sql table_name clean_data condition in
      (case get_db_connection w True tr1 of (conn, tr2) \<Rightarrow>
        (if conn = None then (Failed ''Cannot connect to DB'', tr2)
         else
           (case cursor_execute w sql (update_values clean_data) tr2 of (oc, tr3) \<Rightarrow>
             (case oc of
                Raised e \<Rightarrow> (Failed e, tr3)
              | Done rs changed \<Rightarrow>
                  (case conn_commit w tr3 of (c, tr4) \<Rightarrow>
                    (case c of
                       Some e \<Rightarrow> (Failed e, tr4)
                     | None \<Rightarrow>
                         (Changed changed (''Updated '' @ str_int changed @ '' records''),
                          tr4 @ [Close]))))))))"

definition modify_row :: "world \<Rightarrow> string \<Rightarrow> pydict \<Rightarrow> string \<Rightarrow> trace \<Rightarrow> (op_result \<times> trace)" where
  "modify_row w table_name data condition tr =
     (if empty_condition condition then (Failed ''Condition cannot be empty'', tr)
      else
        (case get_table_info w table_name tr of (columns_info, tr1) \<Rightarrow>
          (let clean_data = filter_data (modify_row_nullable columns_info) data in
           (if clean_data = [] then (Failed ''No data to update'', tr1)
            else modify_row_update w table_name clean_data condition tr1))))"

section \<open>remove\_row and safe\_remove\<close>

text \<open>The statements of the two delete operations.\<close>

definition delete_sql :: "string \<Rightarrow> string \<Rightarrow> string" where
  "delete_sql table_name condition =
     ''DELETE FROM '' @ quoted table_name @ '' WHERE '' @ condition"

definition subquery_sql :: "string \<Rightarrow> string \<Rightarrow> string option \<Rightarrow> string \<Rightarrow> string" where
  "subquery_sql table_name condition pk rel_column =
     (case pk of
        None \<Rightarrow> ''SELECT '' @ quoted rel_column @ '' FROM '' @ quoted table_name
                  @ '' WHERE '' @ condition
      | Some p \<Rightarrow> ''SELECT '' @ quoted p @ '' FROM '' @ quoted table_name
                  @ '' WHERE '' @ condition)"

definition cascade_delete_sql :: "string \<Rightarrow> string \<Rightarrow> string option \<Rightarrow> edge \<Rightarrow> string" where
  "cascade_delete_sql table_name condition pk rel =
     ''DELETE FROM '' @ quoted (referencing_table rel) @ '' WHERE ''
       @ quoted (referencing_column rel) @ '' IN (''
       @ subquery_sql table_name condition pk (referencing_column rel) @ '')''"

definition check_sql :: "string \<Rightarrow> string \<Rightarrow> string option \<Rightarrow> edge \<Rightarrow> string" where
  "check_sql table_name condition pk rel =
     ''SELECT COUNT(*) FROM '' @ quoted (referencing_table rel) @ '' WHERE ''
       @ quoted (referencing_column rel) @ '' IN (''
       @ subquery_sql table_name condition pk (referencing_column rel) @ '')''"

text \<open>
  The cascade loop of remove\_row over the related tables: the primary key is asked again
  for every edge, each delete runs on the cursor of the operation, and the first
  exception leaves the loop.
\<close>

fun cascade_loop :: "world \<Rightarrow> string \<Rightarrow> string \<Rightarrow> edge list \<Rightarrow> trace \<Rightarrow> (string option \<times> trace)" where
  "cascade_loop w table_name condition [] tr = (None, tr)"
| "cascade_loop w table_name condition (rel # rels) tr =
     (case get_table_pk w table_name tr of (pk, tr1) \<Rightarrow>
       (case cursor_execute w (cascade_delete_sql table_name condition pk rel) [] tr1 of (oc, tr2) \<Rightarrow>
         (case oc of
            Raised e \<Rightarrow> (Some e, tr2)
          | Done rs n \<Rightarrow> cascade_loop w table_name condition rels tr2)))"

text \<open>
  The cascade branch: \<^verbatim>\<open>for rel_table in related_tables\<close> raises a TypeError when
  \<^verbatim>\<open>get_related_tables\<close> returned None.
\<close>

definition cascade_deletes :: "world \<Rightarrow> string \<Rightarrow> string \<Rightarrow> bool \<Rightarrow> trace \<Rightarrow> (string option \<times> trace)" where
  "cascade_deletes w table_name condition cascade tr =
     (if cascade then
        (case get_related_tables w table_name tr of (related_tables, tr1) \<Rightarrow>
          (case related_tables of
             None \<Rightarrow> (Some (apostrophe @ ''NoneType'' @ apostrophe @ '' object is not iterable''), tr1)
           | Some rels \<Rightarrow> cascade_loop w table_name condition rels tr1))
      else (None, tr))"

text \<open>The delete from the table itself, the commit and the result; shared by both operations.\<close>

definition delete_and_commit :: "world \<Rightarrow> string \<Rightarrow> string \<Rightarrow> trace \<Rightarrow> (op_result \<times> trace)" where
  "delete_and_commit w table_name condition tr =
     (case cursor_execute w (delete_sql table_name condition) [] tr of (oc, tr1) \<Rightarrow>
       (case oc of
          Raised e \<Rightarrow> (Failed e, tr1)
        | Done rs changed \<Rightarrow>
            (case conn_commit w tr1 of (c, tr2) \<Rightarrow>
              (case c of
                 Some e \<Rightarrow> (Failed e, tr2)
               | None \<Rightarrow>
                   (Changed changed (''Removed '' @ str_int changed @ '' records''),
                    tr2 @ [Close])))))"

definition remove_row :: "world \<Rightarrow> string \<Rightarrow> string \<Rightarrow> bool \<Rightarrow> trace \<Rightarrow> (op_result \<times> trace)" where
  "remove_row w table_name condition cascade tr =
     (if empty_condition condition then (Failed ''Condition cannot be empty'', tr)
      else
        (case get_db_connection w True tr of (conn, tr1) \<Rightarrow>
          (if conn = None then (Failed ''Cannot connect to DB'', tr1)
           else
             (case cascade_deletes w table_name condition cascade tr1 of (err, tr2) \<Rightarrow>
               (case err of
                  Some e \<Rightarrow> (Failed e, tr2)
                | None \<Rightarrow> delete_and_commit w table_name condition tr2)))))"

text \<open>
  \<^verbatim>\<open>row[i]\<close> with an integer. A RealDictCursor row is a plain dict keyed by column name,
  so an integer is a missing key and the KeyError text is the number; the rows of the
  other cursors are sequences.
\<close>

definition row_by_index :: "cursor_factory \<Rightarrow> row \<Rightarrow> nat \<Rightarrow> string + pyval" where
  "row_by_index factory r i =
     (case factory of
        RealDictCursor \<Rightarrow> Inl (str_nat i)
      | DictCursor \<Rightarrow> (if i < length r then Inr (snd (r ! i)) else Inl ''list index out of range'')
      | TupleCursor \<Rightarrow> (if i < length r then Inr (snd (r ! i)) else Inl ''tuple index out of range''))"

text \<open>\<^verbatim>\<open>cursor.fetchone()[0]\<close>.\<close>

definition fetch_count :: "cursor_factory \<Rightarrow> row list option \<Rightarrow> string + pyval" where
  "fetch_count factory rs =
     (case fetchone rs of
        Inl e \<Rightarrow> Inl e
      | Inr None \<Rightarrow> Inl (apostrophe @ ''NoneType'' @ apostrophe @ '' object is not subscriptable'')
      | Inr (Some r) \<Rightarrow> row_by_index factory r 0)"

text \<open>\<^verbatim>\<open>count > 0\<close>: defined on numbers, a TypeError on anything else.\<close>

fun count_positive :: "pyval \<Rightarrow> string + bool" where
  "count_positive (PInt n) = Inr (0 < n)"
| "count_positive (PBool b) = Inr b"
| "count_positive v = Inl (apostrophe @ ''>'' @ apostrophe @ '' not supported between instances'')"

text \<open>
  The counting loop of safe\_remove; \<^verbatim>\<open>has_relations\<close> and \<^verbatim>\<open>relation_info\<close> are the
  two accumulators of the source.
\<close>

fun count_loop :: "world \<Rightarrow> cursor_factory \<Rightarrow> string \<Rightarrow> string \<Rightarrow> edge list \<Rightarrow> bool \<Rightarrow> relation list
    \<Rightarrow> trace \<Rightarrow> ((string + (bool \<times> relation list)) \<times> trace)" where
  "count_loop w factory table_name condition [] has_relations relation_info tr =
     (Inr (has_relations, relation_info), tr)"
| "count_loop w factory table_name condition (rel # rels) has_relations relation_info tr =
     (case get_table_pk w table_name tr of (pk, tr1) \<Rightarrow>
       (case cursor_execute w (check_sql table_name condition pk rel) [] tr1 of (oc, tr2) \<Rightarrow>
         (case oc of
            Raised e \<Rightarrow> (Inl e, tr2)
          | Done rs n \<Rightarrow>
              (case fetch_count factory rs of
                 Inl e \<Rightarrow> (Inl e, tr2)
               | Inr cnt \<Rightarrow>
                   (case count_positive cnt of
                      Inl e \<Rightarrow> (Inl e, tr2)
                    | Inr True \<Rightarrow>
                        count_loop w factory table_name condition rels True
                          (relation_info @ [\<lparr>relation_table = referencing_table rel,
                                             relation_column = referencing_column rel,
                                             relation_count = cnt\<rparr>]) tr2
                    | Inr False \<Rightarrow>
                        count_loop w factory table_name condition rels has_relations
                          relation_info tr2)))))"

text \<open>
  safe\_remove opens its connection with the default \<^verbatim>\<open>dict_mode\<close>, asks for the related
  tables, counts the referencing rows of each, and deletes only when no count was positive.
\<close>

definition safe_remove_counted :: "world \<Rightarrow> cursor_factory \<Rightarrow> string \<Rightarrow> string \<Rightarrow> edge list \<Rightarrow> trace
    \<Rightarrow> (op_result \<times> trace)" where
  "safe_remove_counted w factory table_name condition rels tr =
     (case count_loop w factory table_name condition rels False [] tr of (r, tr1) \<Rightarrow>
       (case r of
          Inl e \<Rightarrow> (Failed e, tr1)
        | Inr (has_relations, relation_info) \<Rightarrow>
            (if has_relations then (HasRelations ''Found related records'' relation_info, tr1 @ [Close])
             else delete_and_commit w table_name condition tr1)))"

definition safe_remove :: "world \<Rightarrow> string \<Rightarrow> string \<Rightarrow> trace \<Rightarrow> (op_result \<times> trace)" where
  "safe_remove w table_name condition tr =
     (if empty_condition condition then (Failed ''Condition cannot be empty'', tr)
      else
        (case get_db_connection w True tr of (conn, tr1) \<Rightarrow>
          (case conn of
             None \<Rightarrow> (Failed ''Cannot connect to DB'', tr1)
           | Some factory \<Rightarrow>
               (case get_related_tables w table_name tr1 of (related_tables, tr2) \<Rightarrow>
                 (case related_tables of
                    None \<Rightarrow> (Failed (apostrophe @ ''NoneType'' @ apostrophe @ '' object is not iterable''), tr2)
                  | Some rels \<Rightarrow> safe_remove_counted w factory table_name condition rels tr2)))))"

section \<open>A concrete database for the examples\<close>

text \<open>
  A database with a table \<^verbatim>\<open>users\<close> whose column \<^verbatim>\<open>name\<close> is NOT NULL and whose column
  \<^verbatim>\<open>note\<close> is nullable, with primary key \<^verbatim>\<open>id\<close>, referenced by \<^verbatim>\<open>orders.user_id\<close>.
  Every statement succeeds, touches one row and returns one row with the count 2.
\<close>

definition users_columns :: "column_info list" where
  "users_columns =
     [\<lparr>column_name = ''name'', data_type = ''text'', is_nullable = ''NO'', column_default = None\<rparr>,
      \<lparr>column_name = ''note'', data_type = ''text'', is_nullable = ''YES'', column_default = None\<rparr>]"

definition orders_edge :: edge where
  "orders_edge = \<lparr>referencing_table = ''orders'', referencing_column = ''user_id'',
                   referenced_table = ''users'', referenced_column = ''id''\<rparr>"

definition demo_world :: world where
  "demo_world =
     \<lparr>w_connect = (\<lambda>tr. True),
      w_execute = (\<lambda>tr sql params. Done (Some [[(''count'', PInt 2)]]) 1),
      w_commit = (\<lambda>tr. None),
      w_table_info = (\<lambda>tr t. Some users_columns),
      w_table_pk = (\<lambda>tr t. Some [''id'']),
      w_related = (\<lambda>tr t. Some [orders_edge]),
      w_present = (\<lambda>tr t. True),
      w_rows = (\<lambda>tr t. Some [[(''id'', PInt 1)]]),
      w_pg_tables = (\<lambda>tr. Inr [''orders'', ''users'']),
      w_run_sql = (\<lambda>tr sql params. Some [[(''id'', PInt 1)]]),
      w_exists = (\<lambda>tr path. True),
      w_mkdir = (\<lambda>tr path. None),
      w_write_xlsx = (\<lambda>tr path. None),
      w_write_json = (\<lambda>tr path. None),
      w_write_manifest = (\<lambda>tr path. None),
      w_pg_dump = (\<lambda>tr t file. Completed 0 [] []),
      w_pg_restore = (\<lambda>tr file. Completed 0 [] []),
      w_now = (\<lambda>tr fmt. ''120000''),
      w_str = (\<lambda>v. case v of PStr s \<Rightarrow> s | PInt i \<Rightarrow> str_int i | _ \<Rightarrow> ''None''),
      w_json_loads = (\<lambda>s. Inl ''Expecting value'')\<rparr>"

section \<open>The add endpoint of main.py\<close>

text \<open>
  The JSON answers of \<^verbatim>\<open>/api/add\<close>: \<^verbatim>\<open>{"ok": True, "msg": ..., "id": result}\<close>,
  \<^verbatim>\<open>{"ok": True, "msg": ...}\<close> without an id, and \<^verbatim>\<open>{"ok": False, "error": ...}\<close>.
  The message of the two successful answers is the same fixed text.
\<close>

datatype api_result =
    ApiOk "pyval option"
  | ApiError string

fun api_ok :: "api_result \<Rightarrow> bool" where
  "api_ok (ApiOk i) = True"
| "api_ok (ApiError e) = False"

text \<open>
  The endpoint turns the empty strings of nullable columns into None, calls
  \<^verbatim>\<open>db.add_row\<close> and answers by looking at \<^verbatim>\<open>result is not None\<close> only.
\<close>

definition api_add_row :: "world \<Rightarrow> string \<Rightarrow> pydict \<Rightarrow> trace \<Rightarrow> (api_result \<times> trace)" where
  "api_add_row w table data tr =
     (if table = [] then (ApiError ''Table required'', tr)
      else
        (case get_table_info w table tr of (info, tr1) \<Rightarrow>
          (let columns_info = (case info of None \<Rightarrow> [] | Some cols \<Rightarrow> cols);
               nullable_columns = add_row_nullable columns_info;
               data1 = map (\<lambda>(key, value).
                              if value = PStr [] \<and> key \<in> set nullable_columns then (key, PNone)
                              else (key, value)) data
           in (case add_row w table data1 tr1 of (result, tr2) \<Rightarrow>
                (if result \<noteq> PNone then (ApiOk (Some result), tr2)
                 else (ApiOk None, tr2))))))"

text \<open>The demo database when it cannot be reached, and when every statement is rejected.\<close>

definition unreachable_world :: world where
  "unreachable_world = demo_world\<lparr>w_connect := (\<lambda>tr. False)\<rparr>"

definition rejecting_world :: world where
  "rejecting_world = demo_world\<lparr>w_execute := (\<lambda>tr sql params. Raised ''null value in column''),
                                 w_table_pk := (\<lambda>tr t. Some [])\<rparr>"

section \<open>Reading a trace\<close>

text \<open>The statement texts and the bound parameter tuples that went through \<^verbatim>\<open>cursor.execute\<close>.\<close>

definition statements :: "trace \<Rightarrow> string list" where
  "statements tr = concat (map (\<lambda>e. case e of Execute sql params oc \<Rightarrow> [sql] | _ \<Rightarrow> []) tr)"

definition bound_params :: "trace \<Rightarrow> pyval list list" where
  "bound_params tr = concat (map (\<lambda>e. case e of Execute sql params oc \<Rightarrow> [params] | _ \<Rightarrow> []) tr)"

text \<open>The error texts of the statements that raised.\<close>

definition raised :: "trace \<Rightarrow> string list" where
  "raised tr = concat (map (\<lambda>e. case e of Execute sql params (Raised m) \<Rightarrow> [m] | _ \<Rightarrow> []) tr)"

text \<open>A value map with every value replaced by None.\<close>

definition erase_values :: "pydict \<Rightarrow> pydict" where
  "erase_values d = map (\<lambda>(key, value). (key, PNone)) d"

section \<open>restore\_from\_backup\<close>








section \<open>Saving the result of an ad hoc query\<close>

text \<open>
  \<^verbatim>\<open>create_folder_with_time\<close>: the folder named after the current time under the base
  folder, or the exception of \<^verbatim>\<open>mkdir\<close>.
\<close>

definition create_folder_with_time :: "world \<Rightarrow> string \<Rightarrow> trace \<Rightarrow> ((string + string) \<times> trace)" where
  "create_folder_with_time w base_folder tr =
     (let time_str = w_now w tr ''%Y%m%d_%H%M%S'';
          new_folder = base_folder @ ''/'' @ time_str;
          r = w_mkdir w tr new_folder
      in ((case r of None \<Rightarrow> Inr new_folder | Some e \<Rightarrow> Inl e), tr @ [MakeDir new_folder r]))"

definition exports_folder :: string where
  "exports_folder = ''/app/exports''"

definition spaces :: "nat \<Rightarrow> string" where
  "spaces n = replicate n CHR '' ''"

text \<open>The two statements of the staging table, with the line breaks of their f-strings.\<close>

definition staging_create_sql :: "string \<Rightarrow> string list \<Rightarrow> string" where
  "staging_create_sql temp_table columns =
     (let column_defs = map (\<lambda>col. quoted col @ '' TEXT'') columns
      in newline @ spaces 24 @ ''CREATE TEMPORARY TABLE '' @ temp_table @ '' ('' @ newline
         @ spaces 28 @ join '', '' column_defs @ newline
         @ spaces 24 @ '')'' @ newline @ spaces 20)"

definition staging_insert_sql :: "string \<Rightarrow> string list \<Rightarrow> string" where
  "staging_insert_sql temp_table columns =
     (let placeholders = join '', '' (replicate (length columns) ''%s'')
      in newline @ spaces 28 @ ''INSERT INTO '' @ temp_table @ '' (''
         @ join '', '' (map (\<lambda>c. quoted c) columns) @ '')'' @ newline
         @ spaces 28 @ ''VALUES ('' @ placeholders @ '')'' @ newline @ spaces 24)"

text \<open>The loop that copies the rows into the staging table as text.\<close>

fun staging_insert_loop :: "world \<Rightarrow> string \<Rightarrow> string list \<Rightarrow> row list \<Rightarrow> trace \<Rightarrow> (string option \<times> trace)" where
  "staging_insert_loop w temp_table columns [] tr = (None, tr)"
| "staging_insert_loop w temp_table columns (r # rs) tr =
     (let values = map (\<lambda>col. w_str w (case dict_get r col of None \<Rightarrow> PStr [] | Some v \<Rightarrow> v)) columns
      in (case cursor_execute w (staging_insert_sql temp_table columns) (map PStr values) tr of
            (oc, tr1) \<Rightarrow>
              (case oc of
                 Raised e \<Rightarrow> (Some e, tr1)
               | Done res n \<Rightarrow> staging_insert_loop w temp_table columns rs tr1)))"

text \<open>
  What follows the inserts inside the \<^verbatim>\<open>try\<close> of save\_query\_to\_xlsx: commit, folder,
  file name, select, the workbook, drop, commit. The result is the exception text or the
  path and the name of the written file.
\<close>

definition staging_drop :: "world \<Rightarrow> string \<Rightarrow> string \<Rightarrow> string \<Rightarrow> trace \<Rightarrow> ((string + (string \<times> string)) \<times> trace)" where
  "staging_drop w temp_table filepath filename tr =
     (case cursor_execute w (''DROP TABLE IF EXISTS '' @ temp_table) [] tr of (oc, tr1) \<Rightarrow>
       (case oc of
          Raised e \<Rightarrow> (Inl e, tr1)
        | Done res n \<Rightarrow>
            (case conn_commit w tr1 of (c, tr2) \<Rightarrow>
              (case c of
                 Some e \<Rightarrow> (Inl e, tr2)
               | None \<Rightarrow> (Inr (filepath, filename), tr2)))))"

definition staging_select_write :: "world \<Rightarrow> string \<Rightarrow> string \<Rightarrow> string \<Rightarrow> trace \<Rightarrow> ((string + (string \<times> string)) \<times> trace)" where
  "staging_select_write w temp_table filepath filename tr =
     (case cursor_execute w (''SELECT * FROM '' @ temp_table) [] tr of (oc, tr1) \<Rightarrow>
       (case oc of
          Raised e \<Rightarrow> (Inl e, tr1)
        | Done None n \<Rightarrow> (Inl ''no results to fetch'', tr1)
        | Done (Some rows) n \<Rightarrow>
            (let x = w_write_xlsx w tr1 filepath;
                 tr2 = tr1 @ [WriteXlsx filepath x]
             in (case x of
                   Some e \<Rightarrow> (Inl e, tr2)
                 | None \<Rightarrow> staging_drop w temp_table filepath filename tr2))))"

definition staging_export :: "world \<Rightarrow> string \<Rightarrow> string \<Rightarrow> trace \<Rightarrow> ((string + (string \<times> string)) \<times> trace)" where
  "staging_export w temp_table query_name tr =
     (case conn_commit w tr of (c, tr1) \<Rightarrow>
       (case c of
          Some e \<Rightarrow> (Inl e, tr1)
        | None \<Rightarrow>
            (case create_folder_with_time w exports_folder tr1 of (d, tr2) \<Rightarrow>
              (case d of
                 Inl e \<Rightarrow> (Inl e, tr2)
               | Inr save_dir \<Rightarrow>
                   (let filename = query_name @ ''_'' @ w_now w tr2 ''%H%M%S'' @ ''.xlsx'';
                        filepath = save_dir @ ''/'' @ filename
                    in staging_select_write w temp_table filepath filename tr2)))))"

text \<open>The \<^verbatim>\<open>try\<close> block as a whole: create the staging table, fill it, export it.\<close>

definition staging :: "world \<Rightarrow> string \<Rightarrow> string \<Rightarrow> row list \<Rightarrow> trace \<Rightarrow> ((string + (string \<times> string)) \<times> trace)" where
  "staging w temp_table query_name result_data tr =
     (let first_row = hd result_data;
          columns = map fst first_row
      in (case cursor_execute w (staging_create_sql temp_table columns) [] tr of (oc, tr1) \<Rightarrow>
           (case oc of
              Raised e \<Rightarrow> (Inl e, tr1)
            | Done res n \<Rightarrow>
                (case staging_insert_loop w temp_table columns result_data tr1 of (err, tr2) \<Rightarrow>
                  (case err of
                     Some e \<Rightarrow> (Inl e, tr2)
                   | None \<Rightarrow> staging_export w temp_table query_name tr2)))))"

text \<open>
  save\_query\_to\_xlsx returns the pair (path, file name), or (None, message). The handler
  rolls back, and the connection is closed on every way out of the \<^verbatim>\<open>try\<close>.
\<close>

definition save_query_to_xlsx :: "world \<Rightarrow> row list \<Rightarrow> string \<Rightarrow> trace \<Rightarrow> ((string option \<times> string) \<times> trace)" where
  "save_query_to_xlsx w result_data query_name tr =
     (if result_data = [] then ((None, ''No data to save''), tr)
      else
        (let temp_table = ''temp_export_'' @ w_now w tr ''%H%M%S''
         in (case get_db_connection w False tr of (conn, tr1) \<Rightarrow>
              (if conn = None then ((None, ''Connection error''), tr1)
               else
                 (case staging w temp_table query_name result_data tr1 of (r, tr2) \<Rightarrow>
                   (case r of
                      Inl e \<Rightarrow> ((None, ''Error: '' @ e), tr2 @ [Rollback, Close])
                    | Inr (filepath, filename) \<Rightarrow> ((Some filepath, filename), tr2 @ [Close])))))))"

text \<open>save\_query\_to\_csv hands a non-empty result to save\_query\_to\_xlsx.\<close>

definition save_query_to_csv :: "world \<Rightarrow> row list \<Rightarrow> trace \<Rightarrow> ((string option \<times> string) \<times> trace)" where
  "save_query_to_csv w result_data tr =
     (if result_data = [] then ((None, ''No data to save''), tr)
      else save_query_to_xlsx w result_data ''query_result'' tr)"

text \<open>
  The answers of \<^verbatim>\<open>/api/save_sql\<close>: a file download with its media type and download
  name, an error dict, or the JSON text of the rows together with a file name.
\<close>

datatype http_response =
    FileResponse string string string
  | ErrorJson string
  | ContentJson string "row list"

definition xlsx_media_type :: string where
  "xlsx_media_type = ''application/vnd.openxmlformats-officedocument.spreadsheetml.sheet''"

definition save_sql_result :: "world \<Rightarrow> string \<Rightarrow> string \<Rightarrow> string \<Rightarrow> trace \<Rightarrow> (http_response \<times> trace)" where
  "save_sql_result w sql params format tr =
     (case (if params \<noteq> [] \<and> py_strip params \<noteq> [] then w_json_loads w params else Inr (PDict [])) of
        Inl e \<Rightarrow> (ErrorJson (''JSON error: '' @ e), tr)
      | Inr params_dict \<Rightarrow>
          (let result = w_run_sql w tr sql params_dict;
               tr1 = tr @ [RunSql sql params_dict result]
           in (case result of
                 None \<Rightarrow> (ErrorJson ''No data to save'', tr1)
               | Some rows \<Rightarrow>
                   (if rows = [] then (ErrorJson ''No data to save'', tr1)
                    else if format = ''csv'' then
                      (case save_query_to_csv w rows tr1 of ((filepath, error), tr2) \<Rightarrow>
                        (case filepath of
                           None \<Rightarrow> (ErrorJson (if error = [] then ''Save error'' else error), tr2)
                         | Some path \<Rightarrow>
                             (if path = [] then (ErrorJson (if error = [] then ''Save error'' else error), tr2)
                              else
                                (let filename = ''sql_result_'' @ w_now w tr2 ''%Y%m%d_%H%M%S'' @ ''.xlsx''
                                 in (FileResponse path xlsx_media_type filename, tr2)))))
                    else if format = ''json'' then
                      (let filename = ''sql_result_'' @ w_now w tr1 ''%Y%m%d_%H%M%S'' @ ''.json''
                       in (ContentJson filename rows, tr1))
                    else (ErrorJson (''Unknown format: '' @ format), tr1)))))"

section \<open>pack\_tables\<close>















text \<open>The steps of the workflow that an event stands for, and their rank in the order.\<close>

datatype pack_step = Backup | Tabular | Structured | Drop

fun step_of :: "event \<Rightarrow> pack_step option" where
  "step_of (PgDump t f r) = Some Backup"
| "step_of (WriteXlsx p r) = Some Tabular"
| "step_of (WriteJson p r) = Some Structured"
| "step_of (Execute sql params oc) = Some Drop"
| "step_of e = None"

definition steps :: "trace \<Rightarrow> pack_step list" where
  "steps tr = concat (map (\<lambda>e. case step_of e of None \<Rightarrow> [] | Some s \<Rightarrow> [s]) tr)"



section \<open>Parameter coercion\<close>








section \<open>Verified properties\<close>

subsection \<open>Empty conditions\<close>

lemma py_strip_empty_iff: "py_strip s = [] \<longleftrightarrow> (\<forall>c\<in>set s. py_isspace c)"
proof
  assume "py_strip s = []"
  then have a: "\<forall>x\<in>set (dropWhile py_isspace s). py_isspace x"
    by (simp add: py_strip_def dropWhile_eq_Nil_conv)
  have "dropWhile py_isspace s = []"
  proof (rule ccontr)
    assume n: "dropWhile py_isspace s \<noteq> []"
    then have "\<not> py_isspace (hd (dropWhile py_isspace s))" by (rule hd_dropWhile)
    moreover have "hd (dropWhile py_isspace s) \<in> set (dropWhile py_isspace s)" using n by simp
    ultimately show False using a by blast
  qed
  then show "\<forall>c\<in>set s. py_isspace c" by (simp add: dropWhile_eq_Nil_conv)
next
  assume "\<forall>c\<in>set s. py_isspace c"
  then show "py_strip s = []"
    by (auto simp: py_strip_def dropWhile_eq_Nil_conv dest: set_dropWhileD)
qed

lemma empty_condition_iff: "empty_condition s \<longleftrightarrow> (\<forall>c\<in>set s. py_isspace c)"
  by (auto simp: empty_condition_def py_strip_empty_iff)

text \<open>
  C6. When the condition is empty or consists of whitespace only, remove\_row (with or
  without cascade), safe\_remove and modify\_row return the failed result
  "Condition cannot be empty" and leave the trace as it was: no connection is opened, no
  catalog query and no statement is issued.
\<close>

theorem empty_condition_no_database_access:
  assumes "\<forall>c\<in>set condition. py_isspace c"
  shows "remove_row w table_name condition cascade tr = (Failed ''Condition cannot be empty'', tr)
       \<and> safe_remove w table_name condition tr = (Failed ''Condition cannot be empty'', tr)
       \<and> modify_row w table_name data condition tr = (Failed ''Condition cannot be empty'', tr)"
  using assms by (simp add: remove_row_def safe_remove_def modify_row_def empty_condition_iff)

theorem empty_condition_no_database_access_witness:
  "remove_row demo_world ''users'' ''  '' True [] = (Failed ''Condition cannot be empty'', [])
   \<and> safe_remove demo_world ''users'' ''  '' [] = (Failed ''Condition cannot be empty'', [])
   \<and> modify_row demo_world ''users'' [(''name'', PStr ''x'')] ''  '' []
       = (Failed ''Condition cannot be empty'', [])"
proof -
  have h: "\<forall>c\<in>set ''  ''. py_isspace c" by (simp add: py_isspace_def)
  show ?thesis
    using empty_condition_no_database_access [OF h, of demo_world "''users''" True "[]" "[(''name'', PStr ''x'')]"]
    by simp
qed

subsection \<open>The null-versus-omit policy of the two builders\<close>

text \<open>
  C3. On the table \<^verbatim>\<open>users\<close>, whose column \<^verbatim>\<open>name\<close> is NOT NULL, the value map
  \<^verbatim>\<open>{"name": ""}\<close> makes add\_row omit the column (nothing is left to insert and no
  statement is issued), while modify\_row keeps it and executes an UPDATE that binds NULL
  to \<^verbatim>\<open>name\<close>: modify\_row treats every column of the table as nullable.
\<close>

theorem modify_row_binds_null_to_not_null_column:
  "add_row demo_world ''users'' [(''name'', PStr [])] []
     = (PNone, [TableInfo ''users'' (Some users_columns)])
   \<and> modify_row demo_world ''users'' [(''name'', PStr [])] ''id = 5'' []
     = (Changed 1 ''Updated 1 records'',
        [TableInfo ''users'' (Some users_columns),
         Connect RealDictCursor True,
         Execute (''UPDATE '' @ quoted ''users'' @ '' SET '' @ quoted ''name'' @ '' = %s WHERE id = 5'')
           [PNone] (Done (Some [[(''count'', PInt 2)]]) 1),
         Commit None,
         Close])"
  by code_simp

subsection \<open>safe\_remove on a table with inbound references\<close>

text \<open>
  C4. On the table \<^verbatim>\<open>users\<close>, referenced by \<^verbatim>\<open>orders.user_id\<close> with two matching rows,
  safe\_remove counts the referencing rows and then fails on \<^verbatim>\<open>cursor.fetchone()[0]\<close>:
  the row of its RealDictCursor has no key 0. The result is the plain failure with the
  text of the KeyError, without \<^verbatim>\<open>has_relations\<close> and without the list of relations.
\<close>

theorem safe_remove_loses_blocking_edges:
  "safe_remove demo_world ''users'' ''id = 5'' []
     = (Failed ''0'',
        [Connect RealDictCursor True,
         RelatedTables ''users'' (Some [orders_edge]),
         TablePk ''users'' (Some [''id'']),
         Execute (check_sql ''users'' ''id = 5'' (Some ''id'') orders_edge) []
           (Done (Some [[(''count'', PInt 2)]]) 1)])"
  by code_simp

text \<open>
  The same happens in every database: with a RealDictCursor the count of the first edge is
  never read, so safe\_remove on a table with at least one inbound edge fails whatever the
  counts are, and never reaches its DELETE.
\<close>

lemma fetch_count_real_dict: "fetch_count RealDictCursor rs \<noteq> Inr c"
  by (cases rs; cases "the rs")
     (simp_all add: fetch_count_def fetchone_def row_by_index_def)

lemma count_loop_real_dict:
  "\<exists>e tr1. count_loop w RealDictCursor table_name condition (rel # rels) h ri tr = (Inl e, tr1)"
  by (simp add: get_table_pk_def cursor_execute_def Let_def fetch_count_real_dict
      split: outcome.split sum.split)

lemma safe_remove_with_edges_fails:
  assumes "\<not> empty_condition condition"
    and "w_connect w tr"
    and "w_related w (tr @ [Connect RealDictCursor True]) table_name = Some (rel # rels)"
  shows "\<exists>e tr1. safe_remove w table_name condition tr = (Failed e, tr1)"
proof -
  obtain e tr1 where
    "count_loop w RealDictCursor table_name condition (rel # rels) False []
       (tr @ [Connect RealDictCursor True, RelatedTables table_name (Some (rel # rels))]) = (Inl e, tr1)"
    using count_loop_real_dict by blast
  with assms show ?thesis
    by (simp add: safe_remove_def get_db_connection_def get_related_tables_def
        safe_remove_counted_def Let_def del: count_loop.simps)
qed

subsection \<open>Failures of add\_row at the endpoint\<close>

text \<open>
  C9. When the database cannot be reached, and when the INSERT is rejected by the
  database, \<^verbatim>\<open>db.add_row\<close> returns None and the endpoint answers with ok true: the failed
  insert is reported as a success.
\<close>

theorem api_add_row_reports_failure_as_ok:
  "api_add_row unreachable_world ''users'' [(''name'', PStr ''x'')] []
     = (ApiOk None,
        [TableInfo ''users'' (Some users_columns),
         TableInfo ''users'' (Some users_columns),
         TablePk ''users'' (Some [''id'']),
         Connect RealDictCursor False])
   \<and> api_add_row rejecting_world ''users'' [(''name'', PStr ''x'')] []
     = (ApiOk None,
        [TableInfo ''users'' (Some users_columns),
         TableInfo ''users'' (Some users_columns),
         TablePk ''users'' (Some []),
         Connect RealDictCursor True,
         Execute (''INSERT INTO '' @ quoted ''users'' @ '' ('' @ quoted ''name'' @ '') VALUES (%s)'')
           [PStr ''x''] (Raised ''null value in column'')])"
  by code_simp

subsection \<open>Statement text and bound values\<close>

lemma statements_append [simp]: "statements (a @ b) = statements a @ statements b"
  by (simp add: statements_def)

lemma bound_params_append [simp]: "bound_params (a @ b) = bound_params a @ bound_params b"
  by (simp add: bound_params_def)

lemma statements_Nil [simp]: "statements [] = []"
  by (simp add: statements_def)

lemma statements_Cons [simp]:
  "statements (e # tr) = (case e of Execute sql params oc \<Rightarrow> [sql] | _ \<Rightarrow> []) @ statements tr"
  by (simp add: statements_def)

lemma bound_params_Nil [simp]: "bound_params [] = []"
  by (simp add: bound_params_def)

lemma bound_params_Cons [simp]:
  "bound_params (e # tr) = (case e of Execute sql params oc \<Rightarrow> [params] | _ \<Rightarrow> []) @ bound_params tr"
  by (simp add: bound_params_def)



lemma fst_erase_values [simp]: "map fst (erase_values d) = map fst d"
  by (simp add: erase_values_def case_prod_beta)







subsection \<open>Cascading remove\_row\<close>

lemma raised_Nil [simp]: "raised [] = []"
  by (simp add: raised_def)

lemma raised_Cons [simp]:
  "raised (e # tr) = (case e of Execute sql params (Raised m) \<Rightarrow> [m] | _ \<Rightarrow> []) @ raised tr"
  by (simp add: raised_def)

lemma raised_append [simp]: "raised (a @ b) = raised a @ raised b"
  by (simp add: raised_def)





subsection \<open>restore\_from\_backup\<close>







subsection \<open>The csv format of the saved query result\<close>

lemma staging_drop_ok:
  "staging_drop w tt fp fn tr = (Inr (p, f), tr') \<Longrightarrow> p = fp \<and> f = fn \<and> set tr \<subseteq> set tr'"
  by (auto simp: staging_drop_def cursor_execute_def conn_commit_def Let_def
      split: outcome.splits option.splits)

lemma staging_select_write_ok:
  assumes "staging_select_write w tt fp fn tr = (Inr (p, f), tr')"
  shows "p = fp \<and> f = fn \<and> WriteXlsx fp None \<in> set tr'"
proof -
  define tr1 where "tr1 = tr @ [Execute (''SELECT * FROM '' @ tt) [] (w_execute w tr (''SELECT * FROM '' @ tt) [])]"
  from assms have "staging_drop w tt fp fn (tr1 @ [WriteXlsx fp None]) = (Inr (p, f), tr')"
    by (auto simp: staging_select_write_def cursor_execute_def Let_def tr1_def
        split: outcome.splits option.splits)
  from staging_drop_ok [OF this] show ?thesis by auto
qed

lemma staging_export_ok:
  assumes "staging_export w tt qn tr = (Inr (p, f), tr')"
  shows "(\<exists>dir stem. p = dir @ ''/'' @ f \<and> f = qn @ ''_'' @ stem @ ''.xlsx'')
       \<and> WriteXlsx p None \<in> set tr'"
proof -
  define d where "d = exports_folder @ ''/'' @ w_now w (tr @ [Commit None]) ''%Y%m%d_%H%M%S''"
  define tr2 where "tr2 = tr @ [Commit None, MakeDir d None]"
  define stem where "stem = w_now w tr2 ''%H%M%S''"
  from assms have "staging_select_write w tt (d @ ''/'' @ qn @ ''_'' @ stem @ ''.xlsx'')
       (qn @ ''_'' @ stem @ ''.xlsx'') tr2 = (Inr (p, f), tr')"
    by (auto simp: staging_export_def conn_commit_def create_folder_with_time_def Let_def
        d_def tr2_def stem_def split: option.splits)
  from staging_select_write_ok [OF this]
  have r: "p = d @ ''/'' @ qn @ ''_'' @ stem @ ''.xlsx''" "f = qn @ ''_'' @ stem @ ''.xlsx''"
    "WriteXlsx (d @ ''/'' @ qn @ ''_'' @ stem @ ''.xlsx'') None \<in> set tr'"
    by blast+
  have "\<exists>dir stem. p = dir @ ''/'' @ f \<and> f = qn @ ''_'' @ stem @ ''.xlsx''"
    using r(1,2) by (intro exI [of _ d] exI [of _ stem]) simp
  with r show ?thesis by simp
qed

lemma staging_ok:
  assumes "staging w tt qn rd tr = (Inr (p, f), tr')"
  shows "(\<exists>dir stem. p = dir @ ''/'' @ f \<and> f = qn @ ''_'' @ stem @ ''.xlsx'')
       \<and> WriteXlsx p None \<in> set tr'"
proof -
  from assms obtain tr2 where "staging_export w tt qn tr2 = (Inr (p, f), tr')"
    by (auto simp: staging_def cursor_execute_def Let_def
        split: outcome.splits option.splits prod.splits)
  from staging_export_ok [OF this] show ?thesis .
qed

lemma save_query_to_xlsx_ok:
  assumes "save_query_to_xlsx w rd qn tr = ((Some p, f), tr')"
  shows "(\<exists>dir stem. p = dir @ ''/'' @ f \<and> f = qn @ ''_'' @ stem @ ''.xlsx'')
       \<and> WriteXlsx p None \<in> set tr'"
proof -
  from assms obtain tt tr1 tr2 where
    s: "staging w tt qn rd tr1 = (Inr (p, f), tr2)" and t: "tr' = tr2 @ [Close]"
    by (auto simp: save_query_to_xlsx_def get_db_connection_def Let_def
        split: if_splits sum.splits prod.splits)
  from staging_ok [OF s] t show ?thesis by auto
qed

text \<open>
  C10. save\_query\_to\_csv does what save\_query\_to\_xlsx does under the query name
  \<^verbatim>\<open>query_result\<close>. Whenever it returns a path, the file at that path was written by the
  workbook writer and its name is \<^verbatim>\<open>query_result_<time>.xlsx\<close>; and whenever the endpoint
  answers the format \<^verbatim>\<open>csv\<close> with a download, the download has the spreadsheet media type
  and a name that ends in \<^verbatim>\<open>.xlsx\<close>, for a file written by the workbook writer.
\<close>

theorem csv_format_yields_xlsx:
  "save_query_to_csv w result_data tr = save_query_to_xlsx w result_data ''query_result'' tr
   \<and> (\<forall>path name. fst (save_query_to_csv w result_data tr) = (Some path, name) \<longrightarrow>
         (\<exists>dir stem. path = dir @ ''/'' @ name \<and> name = ''query_result_'' @ stem @ ''.xlsx'')
         \<and> WriteXlsx path None \<in> set (snd (save_query_to_csv w result_data tr)))
   \<and> (\<forall>path media name. fst (save_sql_result w sql params ''csv'' tr) = FileResponse path media name \<longrightarrow>
         media = xlsx_media_type
         \<and> (\<exists>stem. name = ''sql_result_'' @ stem @ ''.xlsx'')
         \<and> (\<exists>stem. path = stem @ ''.xlsx'')
         \<and> WriteXlsx path None \<in> set (snd (save_sql_result w sql params ''csv'' tr)))"
proof -
  have a: "save_query_to_csv w result_data tr = save_query_to_xlsx w result_data ''query_result'' tr"
    by (simp add: save_query_to_csv_def save_query_to_xlsx_def)
  have b: "(\<exists>dir stem. path = dir @ ''/'' @ name \<and> name = ''query_result_'' @ stem @ ''.xlsx'')
         \<and> WriteXlsx path None \<in> set (snd (save_query_to_csv w rd t))"
    if "fst (save_query_to_csv w rd t) = (Some path, name)" for path name rd t
  proof -
    from that have "save_query_to_xlsx w rd ''query_result'' t
        = ((Some path, name), snd (save_query_to_csv w rd t))"
      by (simp add: save_query_to_csv_def save_query_to_xlsx_def prod_eq_iff split: if_splits)
    from save_query_to_xlsx_ok [OF this] show ?thesis by simp
  qed
  have c: "media = xlsx_media_type
         \<and> (\<exists>stem. name = ''sql_result_'' @ stem @ ''.xlsx'')
         \<and> (\<exists>stem. path = stem @ ''.xlsx'')
         \<and> WriteXlsx path None \<in> set (snd (save_sql_result w sql params ''csv'' tr))"
    if r: "fst (save_sql_result w sql params ''csv'' tr) = FileResponse path media name"
    for path media name
  proof -
    define pd where "pd = (if params \<noteq> [] \<and> py_strip params \<noteq> []
                            then w_json_loads w params else Inr (PDict []))"
    from r obtain d where d: "pd = Inr d"
      by (cases pd) (simp_all add: save_sql_result_def pd_def [symmetric])
    from r d obtain rows where rows: "w_run_sql w tr sql d = Some rows" "rows \<noteq> []"
      by (cases "w_run_sql w tr sql d")
         (auto simp: save_sql_result_def pd_def [symmetric] Let_def split: if_splits)
    define tr1 where "tr1 = tr @ [RunSql sql d (Some rows)]"
    obtain fp nm tr2 where c: "save_query_to_csv w rows tr1 = ((fp, nm), tr2)"
      by (metis prod.exhaust)
    from r d rows c have fp: "fp = Some path"
      and m: "media = xlsx_media_type" "\<exists>stem. name = ''sql_result_'' @ stem @ ''.xlsx''"
      and t: "snd (save_sql_result w sql params ''csv'' tr) = tr2"
      unfolding tr1_def
      by (auto simp: save_sql_result_def pd_def [symmetric] Let_def
          split: option.splits if_splits)
    from c fp have s: "fst (save_query_to_csv w rows tr1) = (Some path, nm)" by simp
    from c t have t: "snd (save_sql_result w sql params ''csv'' tr) = snd (save_query_to_csv w rows tr1)"
      by simp
    from b [OF s] obtain dir stem where
      "path = dir @ ''/'' @ nm" "nm = ''query_result_'' @ stem @ ''.xlsx''"
      "WriteXlsx path None \<in> set (snd (save_query_to_csv w rows tr1))"
      by auto
    then have "path = (dir @ ''/'' @ ''query_result_'' @ stem) @ ''.xlsx''" by simp
    with m t \<open>WriteXlsx path None \<in> set (snd (save_query_to_csv w rows tr1))\<close>
    show ?thesis by metis
  qed
  from a b c show ?thesis by blast
qed

theorem csv_format_yields_xlsx_witness:
  "fst (save_query_to_csv demo_world [[(''id'', PInt 1)]] [])
     = (Some ''/app/exports/120000/query_result_120000.xlsx'', ''query_result_120000.xlsx'')
   \<and> WriteXlsx ''/app/exports/120000/query_result_120000.xlsx'' None
       \<in> set (snd (save_query_to_csv demo_world [[(''id'', PInt 1)]] []))
   \<and> fst (save_sql_result demo_world ''select 1'' [] ''csv'' [])
     = FileResponse ''/app/exports/120000/query_result_120000.xlsx'' xlsx_media_type
         ''sql_result_120000.xlsx''"
proof -
  have e: "fst (save_query_to_csv demo_world [[(''id'', PInt 1)]] [])
     = (Some ''/app/exports/120000/query_result_120000.xlsx'', ''query_result_120000.xlsx'')"
    by code_simp
  have f: "fst (save_sql_result demo_world ''select 1'' [] ''csv'' [])
     = FileResponse ''/app/exports/120000/query_result_120000.xlsx'' xlsx_media_type
         ''sql_result_120000.xlsx''"
    by code_simp
  from e csv_format_yields_xlsx [of demo_world "[[(''id'', PInt 1)]]" "[]"]
  have "WriteXlsx ''/app/exports/120000/query_result_120000.xlsx'' None
       \<in> set (snd (save_query_to_csv demo_world [[(''id'', PInt 1)]] []))"
    by blast
  with e f show ?thesis by simp
qed

subsection \<open>pack\_tables\<close>

lemma steps_Nil [simp]: "steps [] = []"
  by (simp add: steps_def)

lemma steps_Cons [simp]:
  "steps (e # tr) = (case step_of e of None \<Rightarrow> [] | Some s \<Rightarrow> [s]) @ steps tr"
  by (simp add: steps_def)

lemma steps_append [simp]: "steps (a @ b) = steps a @ steps b"
  by (simp add: steps_def)











subsection \<open>Parameter coercion\<close>
















end
